theory Spec2Isabelle
  imports Main
begin

section \<open>The CoinJoin control surface of \<^verbatim>\<open>src/rpc/coinjoin.cpp\<close>\<close>

text \<open>
  The file holds four handlers: \<^verbatim>\<open>coinjoin reset\<close>, \<^verbatim>\<open>coinjoin start\<close>,
  \<^verbatim>\<open>coinjoin stop\<close> and \<^verbatim>\<open>getcoinjoininfo\<close>, and the helper
  \<^verbatim>\<open>ValidateCoinJoinArguments\<close>. Each handler is embedded as a function from the
  request and the node's state to a result and the node's new state. A \<^verbatim>\<open>throw\<close>
  is the \<open>Inl\<close> branch of the result. Every call a handler makes to one of its
  collaborators (the options, the wallet, the wallet's client manager) is appended to
  the \<open>calls\<close> field of the state, in the order the source makes it, so that the order
  of checks and the number of calls can be stated. The model is of the build with
  \<^verbatim>\<open>ENABLE_WALLET\<close>, in which all four handlers exist.
\<close>

subsection \<open>Values and errors\<close>

text \<open>\<^verbatim>\<open>UniValue\<close>: the JSON value a handler returns. An object keeps its pairs in order.\<close>

datatype univalue =
    VNULL
  | VSTR string
  | VNUM int
  | VBOOL bool
  | VARR "univalue list"
  | VOBJ "(string \<times> univalue) list"

abbreviation NullUniValue :: univalue where
  "NullUniValue \<equiv> VNULL"

datatype rpc_code = RPC_INTERNAL_ERROR | RPC_WALLET_UNLOCK_NEEDED

text \<open>
  The \<^verbatim>\<open>Ensure...\<close> helpers return a reference to a part of the node, so their only
  way to fail is to throw; which error they throw is not visible in the file and is kept
  abstract as \<open>EnsureError\<close>. \<^verbatim>\<open>CHECK_NONFATAL\<close> asserts an internal invariant and
  throws \<open>NonFatalCheckError\<close> when it does not hold. Dereferencing a null pointer
  that the source does not check is \<open>NullDereference\<close>.
\<close>

datatype ensured = AnyNodeContext | Chainman | MemPool | Connman

datatype rpc_error =
    JSONRPCError rpc_code string
  | NonFatalCheckError
  | EnsureError ensured
  | NullDereference

subsection \<open>The wallet\<close>

text \<open>
  What the handlers read from \<^verbatim>\<open>CWallet\<close>: its name, \<^verbatim>\<open>IsLocked(true)\<close>,
  \<^verbatim>\<open>IsLegacy()\<close> and the counter \<^verbatim>\<open>nKeysLeftSinceAutoBackup\<close>. The counter is only
  compared and printed, so it is an \<open>int\<close>.
\<close>

record wallet =
  GetName :: string
  IsLocked :: bool
  IsLegacy :: bool
  nKeysLeftSinceAutoBackup :: int

subsection \<open>The per-wallet client manager\<close>

text \<open>
  Modelled from the spec: \<^verbatim>\<open>CCoinJoinClientManager\<close> and its sessions are declared in
  \<^verbatim>\<open>coinjoin/client.h\<close>, outside \<^verbatim>\<open>rpc/coinjoin.cpp\<close>. The model follows
  sections 3, 4.3 and 4.4 of the specification: the manager owns the running flag, its
  sessions (each holding the inputs it has reserved), the round-progress bookkeeping and
  the aggregated status string.
\<close>

datatype session_state =
    Idle | AwaitingQueue | EntrySubmitted | WaitingForOthers
  | SigningRequested | Signed | Completed | Failed | Aborted

record session =
  sess_protxhash :: string
  sess_outpoint :: string
  sess_service :: string
  sess_denomination :: int
  sess_state :: session_state
  sess_entries_count :: int
  sess_reserved :: "string list"

record manager =
  running :: bool
  sessions :: "session list"
  round_progress :: "(string \<times> nat) list"
  status :: string

text \<open>
  Modelled from the spec: \<^verbatim>\<open>StartMixing()\<close> "transitions the manager from disabled to
  enabled. Fails (no-op, returns false) if already enabled".
\<close>

definition StartMixing :: "manager \<Rightarrow> bool \<times> manager" where
  "StartMixing m = (if running m then (False, m) else (True, m\<lparr>running := True\<rparr>))"

text \<open>Modelled from the spec: \<^verbatim>\<open>IsMixing()\<close> reports whether the manager is running.\<close>

definition IsMixing :: "manager \<Rightarrow> bool" where
  "IsMixing m = running m"

text \<open>
  Modelled from the spec: \<^verbatim>\<open>StopMixing()\<close> "disables further session creation"; an
  explicit stop "always releases reservations immediately and discards the session
  regardless of current state" (section 4.3, state \<open>Aborted\<close>).
\<close>

definition StopMixing :: "manager \<Rightarrow> manager" where
  "StopMixing m = m\<lparr>running := False, sessions := []\<rparr>"

text \<open>
  Modelled from the spec: \<^verbatim>\<open>ResetPool()\<close> "unconditionally aborts every active Session
  for this wallet, releases all reservations, and clears accumulated round-progress
  bookkeeping; always succeeds".
\<close>

definition ResetPool :: "manager \<Rightarrow> manager" where
  "ResetPool m = m\<lparr>sessions := [], round_progress := []\<rparr>"

text \<open>
  Modelled from the spec: \<^verbatim>\<open>GetStatuses()\<close> is a "read-only snapshot"; session failures
  are "aggregated into the manager's status string".
\<close>

definition GetStatuses :: "manager \<Rightarrow> string" where
  "GetStatuses m = status m"

definition reserved_inputs :: "manager \<Rightarrow> string list" where
  "reserved_inputs m = concat (map sess_reserved (sessions m))"

subsection \<open>The node\<close>

text \<open>
  Modelled from the spec: \<^verbatim>\<open>CCoinJoinClientOptions\<close> (section 3, ClientOptions) and the
  masternode's pool (section 3, Pool), as far as \<^verbatim>\<open>getcoinjoininfo\<close> prints them.
\<close>

record client_options =
  enabled :: bool
  multisession :: bool
  max_sessions :: int
  max_rounds :: int
  max_amount :: int
  denoms_goal :: int
  denoms_hardcap :: int

record pool =
  pool_queue_size :: int
  pool_denomination :: int
  pool_state :: session_state
  pool_entries_count :: int

text \<open>The calls a handler makes to its collaborators; a call that returns a flag carries it.\<close>

datatype call =
    Call_IsEnabled
  | Call_GetBoolArg
  | Call_IsLocked
  | Call_StartMixing bool
  | Call_IsMixing bool
  | Call_StopMixing
  | Call_ResetPool
  | Call_DoAutomaticDenominating bool
  | Call_GetStatuses

text \<open>
  \<^verbatim>\<open>NodeContext\<close> with the two globals the handlers read (\<^verbatim>\<open>CCoinJoinClientOptions\<close>
  and \<^verbatim>\<open>gArgs\<close>). \<open>mn_activeman\<close>, \<open>chainman\<close>, \<open>mempool\<close> and \<open>connman\<close> say whether
  the pointer of that name is set. \<open>coinjoin_loader\<close> is \<open>None\<close> for a null pointer and
  otherwise holds \<^verbatim>\<open>walletman()\<close>, the client managers by wallet name. The context
  \<^verbatim>\<open>cj_ctx\<close>, its \<open>server\<close> and its queue manager are taken to be there.
\<close>

record node_state =
  mn_activeman :: bool
  options :: client_options
  gArgs :: "string \<rightharpoonup> bool"
  coinjoin_loader :: "(string \<rightharpoonup> manager) option"
  queueman_size :: int
  server :: pool
  chainman :: bool
  mempool :: bool
  connman :: bool
  calls :: "call list"

text \<open>
  A request, as far as the handlers look at it: the wallet that
  \<^verbatim>\<open>GetWalletForJSONRPCRequest\<close> resolves (\<open>None\<close> for a null pointer) and whether
  \<^verbatim>\<open>request.context\<close> holds the node, which is what \<^verbatim>\<open>EnsureAnyNodeContext\<close> needs.
\<close>

record request =
  GetWalletForJSONRPCRequest :: "wallet option"
  has_node_context :: bool

type_synonym 'a rpc_result = "(rpc_error + 'a) \<times> node_state"

definition record_call :: "call \<Rightarrow> node_state \<Rightarrow> node_state" where
  "record_call c s = s\<lparr>calls := calls s @ [c]\<rparr>"

text \<open>The calls made between an earlier state and a later one.\<close>

definition new_calls :: "node_state \<Rightarrow> node_state \<Rightarrow> call list" where
  "new_calls s s' = drop (length (calls s)) (calls s')"

definition GetBoolArg :: "(string \<rightharpoonup> bool) \<Rightarrow> string \<Rightarrow> bool \<Rightarrow> bool" where
  "GetBoolArg args name fDefault = (case args name of None \<Rightarrow> fDefault | Some b \<Rightarrow> b)"

text \<open>
  \<^verbatim>\<open>node.coinjoin_loader->walletman().Get(name)\<close> behind the two \<^verbatim>\<open>CHECK_NONFATAL\<close>s
  of the three control handlers, and the write back of the manager the handler has
  changed through the pointer it got.
\<close>

definition Get_clientman :: "node_state \<Rightarrow> string \<Rightarrow> rpc_error + manager" where
  "Get_clientman s name =
     (case coinjoin_loader s of
        None \<Rightarrow> Inl NonFatalCheckError
      | Some walletman \<Rightarrow>
          (case walletman name of
             None \<Rightarrow> Inl NonFatalCheckError
           | Some cj_clientman \<Rightarrow> Inr cj_clientman))"

definition set_clientman :: "string \<Rightarrow> manager \<Rightarrow> node_state \<Rightarrow> node_state" where
  "set_clientman name m s =
     s\<lparr>coinjoin_loader := map_option (\<lambda>walletman. walletman(name \<mapsto> m)) (coinjoin_loader s)\<rparr>"

subsection \<open>The handlers\<close>

definition masternode_msg :: string where
  "masternode_msg = ''Client-side mixing is not supported on masternodes''"

definition disabled_by_arg_msg :: string where
  "disabled_by_arg_msg =
     ''Mixing is disabled via -enablecoinjoin=0 command line option, remove it to enable mixing again''"

definition disabled_internal_msg :: string where
  "disabled_internal_msg = ''Mixing is disabled due to an internal error''"

definition unlock_msg :: string where
  "unlock_msg = ''Error: Please unlock wallet for mixing with walletpassphrase first.''"

definition ValidateCoinJoinArguments :: "node_state \<Rightarrow> unit rpc_result" where
  "ValidateCoinJoinArguments s =
     (let s1 = record_call Call_IsEnabled s in
      if enabled (options s1) then (Inr (), s1)
      else
        let s2 = record_call Call_GetBoolArg s1 in
        if \<not> GetBoolArg (gArgs s2) ''-enablecoinjoin'' True
        then (Inl (JSONRPCError RPC_INTERNAL_ERROR disabled_by_arg_msg), s2)
        else (Inl (JSONRPCError RPC_INTERNAL_ERROR disabled_internal_msg), s2))"

definition coinjoin_reset :: "request \<Rightarrow> node_state \<Rightarrow> univalue rpc_result" where
  "coinjoin_reset request s =
     (case GetWalletForJSONRPCRequest request of
        None \<Rightarrow> (Inr NullUniValue, s)
      | Some wallet \<Rightarrow>
          if \<not> has_node_context request then (Inl (EnsureError AnyNodeContext), s)
          else if mn_activeman s
          then (Inl (JSONRPCError RPC_INTERNAL_ERROR masternode_msg), s)
          else
            (case ValidateCoinJoinArguments s of
               (Inl e, s1) \<Rightarrow> (Inl e, s1)
             | (Inr _, s1) \<Rightarrow>
                 (case Get_clientman s1 (GetName wallet) of
                    Inl e \<Rightarrow> (Inl e, s1)
                  | Inr cj_clientman \<Rightarrow>
                      let s2 = record_call Call_ResetPool
                                 (set_clientman (GetName wallet) (ResetPool cj_clientman) s1)
                      in (Inr (VSTR ''Mixing was reset''), s2))))"

text \<open>
  \<^verbatim>\<open>DoAutomaticDenominating\<close> is defined outside \<^verbatim>\<open>rpc/coinjoin.cpp\<close> and the
  specification does not fix what it computes, so \<^verbatim>\<open>coinjoin start\<close> takes it as a parameter: a function
  from the manager to its boolean result and the manager it leaves behind (the chain
  state, the connection manager and the memory pool it is given are part of that
  function).
\<close>

definition coinjoin_start ::
  "(manager \<Rightarrow> bool \<times> manager) \<Rightarrow> request \<Rightarrow> node_state \<Rightarrow> univalue rpc_result" where
  "coinjoin_start DoAutomaticDenominating request s =
     (case GetWalletForJSONRPCRequest request of
        None \<Rightarrow> (Inr NullUniValue, s)
      | Some wallet \<Rightarrow>
          if \<not> has_node_context request then (Inl (EnsureError AnyNodeContext), s)
          else if mn_activeman s
          then (Inl (JSONRPCError RPC_INTERNAL_ERROR masternode_msg), s)
          else
            (case ValidateCoinJoinArguments s of
               (Inl e, s1) \<Rightarrow> (Inl e, s1)
             | (Inr _, s1) \<Rightarrow>
                 let s2 = record_call Call_IsLocked s1 in
                 if IsLocked wallet
                 then (Inl (JSONRPCError RPC_WALLET_UNLOCK_NEEDED unlock_msg), s2)
                 else
                   (case Get_clientman s2 (GetName wallet) of
                      Inl e \<Rightarrow> (Inl e, s2)
                    | Inr cj_clientman \<Rightarrow>
                        let (started, cj1) = StartMixing cj_clientman;
                            s3 = record_call (Call_StartMixing started)
                                   (set_clientman (GetName wallet) cj1 s2)
                        in
                        if \<not> started
                        then (Inl (JSONRPCError RPC_INTERNAL_ERROR
                                    ''Mixing has been started already.''), s3)
                        else if \<not> chainman s3 then (Inl (EnsureError Chainman), s3)
                        else if \<not> mempool s3 then (Inl (EnsureError MemPool), s3)
                        else if \<not> connman s3 then (Inl (EnsureError Connman), s3)
                        else
                          let (result, cj2) = DoAutomaticDenominating cj1;
                              s4 = record_call (Call_DoAutomaticDenominating result)
                                     (set_clientman (GetName wallet) cj2 s3)
                          in
                          if result
                          then (Inr (VSTR (''Mixing '' @ ''started successfully'')), s4)
                          else (Inr (VSTR (''Mixing '' @ (''start failed: '' @ GetStatuses cj2
                                              @ '', will retry''))),
                                record_call Call_GetStatuses s4))))"

definition coinjoin_stop :: "request \<Rightarrow> node_state \<Rightarrow> univalue rpc_result" where
  "coinjoin_stop request s =
     (case GetWalletForJSONRPCRequest request of
        None \<Rightarrow> (Inr NullUniValue, s)
      | Some wallet \<Rightarrow>
          if \<not> has_node_context request then (Inl (EnsureError AnyNodeContext), s)
          else if mn_activeman s
          then (Inl (JSONRPCError RPC_INTERNAL_ERROR masternode_msg), s)
          else
            (case ValidateCoinJoinArguments s of
               (Inl e, s1) \<Rightarrow> (Inl e, s1)
             | (Inr _, s1) \<Rightarrow>
                 (case Get_clientman s1 (GetName wallet) of
                    Inl e \<Rightarrow> (Inl e, s1)
                  | Inr cj_clientman \<Rightarrow>
                      let s2 = record_call (Call_IsMixing (IsMixing cj_clientman)) s1 in
                      if \<not> IsMixing cj_clientman
                      then (Inl (JSONRPCError RPC_INTERNAL_ERROR ''No mix session to stop''), s2)
                      else
                        let s3 = record_call Call_StopMixing
                                   (set_clientman (GetName wallet) (StopMixing cj_clientman) s2)
                        in (Inr (VSTR ''Mixing was stopped''), s3))))"

subsection \<open>Reporting\<close>

text \<open>
  \<^verbatim>\<open>UniValue::pushKV\<close> on the pairs of an object: the value of a key the object
  already has is replaced, a new key goes to the end. The handlers only push keys the
  object does not have yet.
\<close>

fun pushKV :: "string \<Rightarrow> univalue \<Rightarrow> (string \<times> univalue) list \<Rightarrow> (string \<times> univalue) list" where
  "pushKV key val [] = [(key, val)]"
| "pushKV key val ((k, v) # kvs) =
     (if k = key then (k, val) # kvs else (k, v) # pushKV key val kvs)"

definition pushKVs ::
  "(string \<times> univalue) list \<Rightarrow> (string \<times> univalue) list \<Rightarrow> (string \<times> univalue) list" where
  "pushKVs new obj = foldl (\<lambda>acc (key, val). pushKV key val acc) obj new"

definition keys_of :: "(string \<times> univalue) list \<Rightarrow> string list" where
  "keys_of obj = map fst obj"

text \<open>
  Modelled from the spec: the three \<^verbatim>\<open>GetJsonInfo\<close> functions (of the client options, of
  the client manager and of the masternode's server) are defined outside this file.
  They push the fields that section 6 of the specification and the result description of
  \<^verbatim>\<open>getcoinjoininfo\<close> list for them, in that order. A state is printed by its name in
  section 4.3.
\<close>

fun GetStateString :: "session_state \<Rightarrow> string" where
  "GetStateString Idle = ''Idle''"
| "GetStateString AwaitingQueue = ''AwaitingQueue''"
| "GetStateString EntrySubmitted = ''EntrySubmitted''"
| "GetStateString WaitingForOthers = ''WaitingForOthers''"
| "GetStateString SigningRequested = ''SigningRequested''"
| "GetStateString Signed = ''Signed''"
| "GetStateString Completed = ''Completed''"
| "GetStateString Failed = ''Failed''"
| "GetStateString Aborted = ''Aborted''"

definition options_GetJsonInfo ::
  "client_options \<Rightarrow> (string \<times> univalue) list \<Rightarrow> (string \<times> univalue) list" where
  "options_GetJsonInfo opts obj =
     pushKVs
       [(''enabled'', VBOOL (enabled opts)),
        (''multisession'', VBOOL (multisession opts)),
        (''max_sessions'', VNUM (max_sessions opts)),
        (''max_rounds'', VNUM (max_rounds opts)),
        (''max_amount'', VNUM (max_amount opts)),
        (''denoms_goal'', VNUM (denoms_goal opts)),
        (''denoms_hardcap'', VNUM (denoms_hardcap opts))] obj"

definition session_GetJsonInfo :: "session \<Rightarrow> univalue" where
  "session_GetJsonInfo ses =
     VOBJ (pushKVs
       [(''protxhash'', VSTR (sess_protxhash ses)),
        (''outpoint'', VSTR (sess_outpoint ses)),
        (''service'', VSTR (sess_service ses)),
        (''denomination'', VNUM (sess_denomination ses)),
        (''state'', VSTR (GetStateString (sess_state ses))),
        (''entries_count'', VNUM (sess_entries_count ses))] [])"

definition manager_GetJsonInfo ::
  "manager \<Rightarrow> (string \<times> univalue) list \<Rightarrow> (string \<times> univalue) list" where
  "manager_GetJsonInfo m obj =
     pushKVs
       [(''running'', VBOOL (IsMixing m)),
        (''sessions'', VARR (map session_GetJsonInfo (sessions m)))] obj"

definition server_GetJsonInfo ::
  "pool \<Rightarrow> (string \<times> univalue) list \<Rightarrow> (string \<times> univalue) list" where
  "server_GetJsonInfo p obj =
     pushKVs
       [(''queue_size'', VNUM (pool_queue_size p)),
        (''denomination'', VNUM (pool_denomination p)),
        (''state'', VSTR (GetStateString (pool_state p))),
        (''entries_count'', VNUM (pool_entries_count p))] obj"

text \<open>
  \<^verbatim>\<open>getcoinjoininfo\<close>, built with the wallet. The constant
  \<^verbatim>\<open>COINJOIN_KEYS_THRESHOLD_WARNING\<close> is declared outside this file and is a
  parameter. The client branch dereferences \<open>coinjoin_loader\<close> without a check.
\<close>

definition getcoinjoininfo :: "int \<Rightarrow> request \<Rightarrow> node_state \<Rightarrow> univalue rpc_result" where
  "getcoinjoininfo COINJOIN_KEYS_THRESHOLD_WARNING request s =
     (let obj = [] in
      if \<not> has_node_context request then (Inl (EnsureError AnyNodeContext), s)
      else if mn_activeman s then (Inr (VOBJ (server_GetJsonInfo (server s) obj)), s)
      else
        let obj1 = options_GetJsonInfo (options s) obj;
            obj2 = pushKV ''queue_size'' (VNUM (queueman_size s)) obj1
        in
        (case GetWalletForJSONRPCRequest request of
           None \<Rightarrow> (Inr (VOBJ obj2), s)
         | Some wallet \<Rightarrow>
             (case coinjoin_loader s of
                None \<Rightarrow> (Inl NullDereference, s)
              | Some walletman \<Rightarrow>
                  (case walletman (GetName wallet) of
                     None \<Rightarrow> (Inl NonFatalCheckError, s)
                   | Some mgr \<Rightarrow>
                       let obj3 = manager_GetJsonInfo mgr obj2;
                           obj4 = (if IsLegacy wallet
                                   then pushKV ''keys_left''
                                          (VNUM (nKeysLeftSinceAutoBackup wallet)) obj3
                                   else obj3);
                           warning_msg =
                             (if IsLegacy wallet
                                 \<and> nKeysLeftSinceAutoBackup wallet < COINJOIN_KEYS_THRESHOLD_WARNING
                              then ''WARNING: keypool is almost depleted!''
                              else '''')
                       in (Inr (VOBJ (pushKV ''warnings'' (VSTR warning_msg) obj4)), s)))))"

subsection \<open>Reaching the client manager\<close>

text \<open>
  The client manager that \<^verbatim>\<open>coinjoin stop\<close> and \<^verbatim>\<open>coinjoin reset\<close> get hold of: there
  is one when a wallet is resolved, the node context is found, the node is not a
  masternode, mixing is enabled and the manager of that wallet exists.
  \<^verbatim>\<open>coinjoin start\<close> also wants the wallet unlocked.
\<close>

definition guarded_manager :: "request \<Rightarrow> node_state \<Rightarrow> manager option" where
  "guarded_manager request s =
     (case GetWalletForJSONRPCRequest request of
        None \<Rightarrow> None
      | Some wallet \<Rightarrow>
          if has_node_context request \<and> \<not> mn_activeman s \<and> enabled (options s)
          then (case Get_clientman s (GetName wallet) of Inl e \<Rightarrow> None | Inr cj \<Rightarrow> Some cj)
          else None)"

definition start_manager :: "request \<Rightarrow> node_state \<Rightarrow> manager option" where
  "start_manager request s =
     (case GetWalletForJSONRPCRequest request of
        None \<Rightarrow> None
      | Some wallet \<Rightarrow>
          if IsLocked wallet then None else guarded_manager request s)"

section \<open>Concrete nodes, wallets and requests\<close>

definition example_wallet :: wallet where
  "example_wallet =
     \<lparr>GetName = ''w'', IsLocked = False, IsLegacy = True, nKeysLeftSinceAutoBackup = 5\<rparr>"

definition example_session :: session where
  "example_session =
     \<lparr>sess_protxhash = ''a1'', sess_outpoint = ''b2-0'', sess_service = ''10.0.0.1:9999'',
      sess_denomination = 100001, sess_state = WaitingForOthers, sess_entries_count = 2,
      sess_reserved = [''c3-1'']\<rparr>"

definition example_manager :: manager where
  "example_manager = \<lparr>running = False, sessions = [], round_progress = [], status = ''idle''\<rparr>"

definition example_options :: client_options where
  "example_options =
     \<lparr>enabled = True, multisession = False, max_sessions = 4, max_rounds = 4,
      max_amount = 1000, denoms_goal = 50, denoms_hardcap = 300\<rparr>"

definition example_pool :: pool where
  "example_pool =
     \<lparr>pool_queue_size = 0, pool_denomination = 0, pool_state = Idle, pool_entries_count = 0\<rparr>"

definition client_node :: node_state where
  "client_node =
     \<lparr>mn_activeman = False, options = example_options, gArgs = Map.empty,
      coinjoin_loader = Some [''w'' \<mapsto> example_manager], queueman_size = 2,
      server = example_pool, chainman = True, mempool = True, connman = True, calls = []\<rparr>"

definition masternode_node :: node_state where
  "masternode_node = client_node\<lparr>mn_activeman := True\<rparr>"

definition wallet_request :: request where
  "wallet_request = \<lparr>GetWalletForJSONRPCRequest = Some example_wallet, has_node_context = True\<rparr>"

definition no_wallet_request :: request where
  "no_wallet_request = \<lparr>GetWalletForJSONRPCRequest = None, has_node_context = True\<rparr>"

text \<open>
  Two outcomes of \<^verbatim>\<open>DoAutomaticDenominating\<close>: it opens a session and succeeds, or it
  fails with a status.
\<close>

definition denominate_ok :: "manager \<Rightarrow> bool \<times> manager" where
  "denominate_ok m = (True, m\<lparr>sessions := [example_session], status := ''mixing''\<rparr>)"

definition denominate_fail :: "manager \<Rightarrow> bool \<times> manager" where
  "denominate_fail m = (False, m\<lparr>status := ''no queues''\<rparr>)"

text \<open>Nodes with mixing disabled, a locked wallet, and the nodes that the handlers leave behind.\<close>

definition disabled_node :: node_state where
  "disabled_node = client_node\<lparr>options := example_options\<lparr>enabled := False\<rparr>\<rparr>"

definition disabled_by_arg_node :: node_state where
  "disabled_by_arg_node = disabled_node\<lparr>gArgs := [''-enablecoinjoin'' \<mapsto> False]\<rparr>"

definition locked_request :: request where
  "locked_request =
     \<lparr>GetWalletForJSONRPCRequest = Some (example_wallet\<lparr>IsLocked := True\<rparr>),
      has_node_context = True\<rparr>"

definition mixing_manager :: manager where
  "mixing_manager =
     example_manager\<lparr>running := True, sessions := [example_session], status := ''mixing''\<rparr>"

definition started_node :: node_state where
  "started_node =
     client_node\<lparr>coinjoin_loader := Some [''w'' \<mapsto> mixing_manager],
       calls := [Call_IsEnabled, Call_IsLocked, Call_StartMixing True,
                 Call_DoAutomaticDenominating True]\<rparr>"

definition stopped_node :: node_state where
  "stopped_node =
     started_node\<lparr>coinjoin_loader := Some [''w'' \<mapsto> StopMixing mixing_manager],
       calls := calls started_node @ [Call_IsEnabled, Call_IsMixing True, Call_StopMixing]\<rparr>"

definition reset_node :: node_state where
  "reset_node =
     started_node\<lparr>coinjoin_loader := Some [''w'' \<mapsto> ResetPool mixing_manager],
       calls := calls started_node @ [Call_IsEnabled, Call_ResetPool]\<rparr>"

section \<open>The paths through the handlers\<close>

text \<open>
  One lemma for each way through a handler: what it returns and the state it leaves, with
  the calls it has recorded.
\<close>

lemma validate_enabled:
  "enabled (options s) \<Longrightarrow>
   ValidateCoinJoinArguments s = (Inr (), s\<lparr>calls := calls s @ [Call_IsEnabled]\<rparr>)"
  by (simp add: ValidateCoinJoinArguments_def record_call_def)

lemma validate_disabled:
  "\<not> enabled (options s) \<Longrightarrow>
   ValidateCoinJoinArguments s =
     (Inl (JSONRPCError RPC_INTERNAL_ERROR
            (if GetBoolArg (gArgs s) ''-enablecoinjoin'' True
             then disabled_internal_msg else disabled_by_arg_msg)),
      s\<lparr>calls := calls s @ [Call_IsEnabled, Call_GetBoolArg]\<rparr>)"
  by (simp add: ValidateCoinJoinArguments_def record_call_def)

lemma stop_no_wallet:
  "GetWalletForJSONRPCRequest request = None \<Longrightarrow> coinjoin_stop request s = (Inr VNULL, s)"
  by (simp add: coinjoin_stop_def)

lemma stop_no_context:
  "GetWalletForJSONRPCRequest request = Some wallet \<Longrightarrow> \<not> has_node_context request \<Longrightarrow>
   coinjoin_stop request s = (Inl (EnsureError AnyNodeContext), s)"
  by (simp add: coinjoin_stop_def)

lemma stop_masternode:
  "GetWalletForJSONRPCRequest request = Some wallet \<Longrightarrow> has_node_context request \<Longrightarrow>
   mn_activeman s \<Longrightarrow>
   coinjoin_stop request s = (Inl (JSONRPCError RPC_INTERNAL_ERROR masternode_msg), s)"
  by (simp add: coinjoin_stop_def)

lemma stop_disabled:
  assumes "GetWalletForJSONRPCRequest request = Some wallet" "has_node_context request"
    "\<not> mn_activeman s" "\<not> enabled (options s)"
  shows "coinjoin_stop request s =
     (Inl (JSONRPCError RPC_INTERNAL_ERROR
            (if GetBoolArg (gArgs s) ''-enablecoinjoin'' True
             then disabled_internal_msg else disabled_by_arg_msg)),
      s\<lparr>calls := calls s @ [Call_IsEnabled, Call_GetBoolArg]\<rparr>)"
  using assms
  by (simp add: coinjoin_stop_def validate_disabled)

lemma stop_no_manager:
  assumes "GetWalletForJSONRPCRequest request = Some wallet" "has_node_context request"
    "\<not> mn_activeman s" "enabled (options s)"
    "Get_clientman s (GetName wallet) = Inl e"
  shows "coinjoin_stop request s = (Inl e, s\<lparr>calls := calls s @ [Call_IsEnabled]\<rparr>)"
  using assms
  by (simp add: coinjoin_stop_def validate_enabled Get_clientman_def split: option.splits)

lemma stop_not_mixing:
  assumes "GetWalletForJSONRPCRequest request = Some wallet" "has_node_context request"
    "\<not> mn_activeman s" "enabled (options s)"
    "coinjoin_loader s = Some walletman" "walletman (GetName wallet) = Some cj"
    "\<not> IsMixing cj"
  shows "coinjoin_stop request s =
           (Inl (JSONRPCError RPC_INTERNAL_ERROR ''No mix session to stop''),
            s\<lparr>calls := calls s @ [Call_IsEnabled, Call_IsMixing False]\<rparr>)"
  using assms
  by (simp add: coinjoin_stop_def validate_enabled Get_clientman_def record_call_def)

lemma stop_mixing:
  assumes "GetWalletForJSONRPCRequest request = Some wallet" "has_node_context request"
    "\<not> mn_activeman s" "enabled (options s)"
    "coinjoin_loader s = Some walletman" "walletman (GetName wallet) = Some cj"
    "IsMixing cj"
  shows "coinjoin_stop request s =
           (Inr (VSTR ''Mixing was stopped''),
            s\<lparr>coinjoin_loader := Some (walletman(GetName wallet \<mapsto> StopMixing cj)),
              calls := calls s @ [Call_IsEnabled, Call_IsMixing True, Call_StopMixing]\<rparr>)"
  using assms
  by (simp add: coinjoin_stop_def validate_enabled Get_clientman_def record_call_def set_clientman_def)

lemma msg_distinct:
  "masternode_msg \<noteq> ''No mix session to stop''"
  "disabled_internal_msg \<noteq> ''No mix session to stop''"
  "disabled_by_arg_msg \<noteq> ''No mix session to stop''"
  "masternode_msg \<noteq> ''Mixing has been started already.''"
  "disabled_internal_msg \<noteq> ''Mixing has been started already.''"
  "disabled_by_arg_msg \<noteq> ''Mixing has been started already.''"
  by (simp_all add: masternode_msg_def disabled_internal_msg_def disabled_by_arg_msg_def)

lemma Get_clientman_cases:
  obtains (missing) "Get_clientman s name = Inl NonFatalCheckError"
  | (found) walletman cj where "coinjoin_loader s = Some walletman" "walletman name = Some cj"
proof (cases "coinjoin_loader s")
  case None
  then show thesis
    using missing by (simp add: Get_clientman_def)
next
  case (Some walletman)
  then show thesis
    using missing found by (cases "walletman name") (simp_all add: Get_clientman_def)
qed

lemma Get_clientman_found:
  "coinjoin_loader s = Some walletman \<Longrightarrow> walletman name = Some cj \<Longrightarrow>
   Get_clientman s name = Inr cj"
  by (simp add: Get_clientman_def)

lemma reset_no_wallet:
  "GetWalletForJSONRPCRequest request = None \<Longrightarrow> coinjoin_reset request s = (Inr VNULL, s)"
  by (simp add: coinjoin_reset_def)

lemma reset_masternode:
  "GetWalletForJSONRPCRequest request = Some wallet \<Longrightarrow> has_node_context request \<Longrightarrow>
   mn_activeman s \<Longrightarrow>
   coinjoin_reset request s = (Inl (JSONRPCError RPC_INTERNAL_ERROR masternode_msg), s)"
  by (simp add: coinjoin_reset_def)

lemma reset_disabled:
  assumes "GetWalletForJSONRPCRequest request = Some wallet" "has_node_context request"
    "\<not> mn_activeman s" "\<not> enabled (options s)"
  shows "coinjoin_reset request s =
     (Inl (JSONRPCError RPC_INTERNAL_ERROR
            (if GetBoolArg (gArgs s) ''-enablecoinjoin'' True
             then disabled_internal_msg else disabled_by_arg_msg)),
      s\<lparr>calls := calls s @ [Call_IsEnabled, Call_GetBoolArg]\<rparr>)"
  using assms
  by (simp add: coinjoin_reset_def validate_disabled)

lemma reset_done:
  assumes "GetWalletForJSONRPCRequest request = Some wallet" "has_node_context request"
    "\<not> mn_activeman s" "enabled (options s)"
    "coinjoin_loader s = Some walletman" "walletman (GetName wallet) = Some cj"
  shows "coinjoin_reset request s =
           (Inr (VSTR ''Mixing was reset''),
            s\<lparr>coinjoin_loader := Some (walletman(GetName wallet \<mapsto> ResetPool cj)),
              calls := calls s @ [Call_IsEnabled, Call_ResetPool]\<rparr>)"
  using assms
  by (simp add: coinjoin_reset_def validate_enabled Get_clientman_def record_call_def set_clientman_def)

lemma ResetPool_idem: "ResetPool (ResetPool m) = ResetPool m"
  by (simp add: ResetPool_def)

lemma start_no_wallet:
  "GetWalletForJSONRPCRequest request = None \<Longrightarrow> coinjoin_start dad request s = (Inr VNULL, s)"
  by (simp add: coinjoin_start_def)

lemma start_no_context:
  "GetWalletForJSONRPCRequest request = Some wallet \<Longrightarrow> \<not> has_node_context request \<Longrightarrow>
   coinjoin_start dad request s = (Inl (EnsureError AnyNodeContext), s)"
  by (simp add: coinjoin_start_def)

lemma start_masternode:
  "GetWalletForJSONRPCRequest request = Some wallet \<Longrightarrow> has_node_context request \<Longrightarrow>
   mn_activeman s \<Longrightarrow>
   coinjoin_start dad request s = (Inl (JSONRPCError RPC_INTERNAL_ERROR masternode_msg), s)"
  by (simp add: coinjoin_start_def)

lemma start_disabled:
  assumes "GetWalletForJSONRPCRequest request = Some wallet" "has_node_context request"
    "\<not> mn_activeman s" "\<not> enabled (options s)"
  shows "coinjoin_start dad request s =
     (Inl (JSONRPCError RPC_INTERNAL_ERROR
            (if GetBoolArg (gArgs s) ''-enablecoinjoin'' True
             then disabled_internal_msg else disabled_by_arg_msg)),
      s\<lparr>calls := calls s @ [Call_IsEnabled, Call_GetBoolArg]\<rparr>)"
  using assms
  by (simp add: coinjoin_start_def validate_disabled)

lemma start_locked:
  assumes "GetWalletForJSONRPCRequest request = Some wallet" "has_node_context request"
    "\<not> mn_activeman s" "enabled (options s)" "IsLocked wallet"
  shows "coinjoin_start dad request s =
     (Inl (JSONRPCError RPC_WALLET_UNLOCK_NEEDED unlock_msg),
      s\<lparr>calls := calls s @ [Call_IsEnabled, Call_IsLocked]\<rparr>)"
  using assms
  by (simp add: coinjoin_start_def validate_enabled record_call_def)

lemma start_no_manager:
  assumes "GetWalletForJSONRPCRequest request = Some wallet" "has_node_context request"
    "\<not> mn_activeman s" "enabled (options s)" "\<not> IsLocked wallet"
    "Get_clientman s (GetName wallet) = Inl e"
  shows "coinjoin_start dad request s =
     (Inl e, s\<lparr>calls := calls s @ [Call_IsEnabled, Call_IsLocked]\<rparr>)"
  using assms
  by (simp add: coinjoin_start_def validate_enabled record_call_def Get_clientman_def
      split: option.splits)

lemma start_running:
  assumes "GetWalletForJSONRPCRequest request = Some wallet" "has_node_context request"
    "\<not> mn_activeman s" "enabled (options s)" "\<not> IsLocked wallet"
    "coinjoin_loader s = Some walletman" "walletman (GetName wallet) = Some cj"
    "running cj"
  shows "coinjoin_start dad request s =
     (Inl (JSONRPCError RPC_INTERNAL_ERROR ''Mixing has been started already.''),
      s\<lparr>calls := calls s @ [Call_IsEnabled, Call_IsLocked, Call_StartMixing False]\<rparr>)"
proof -
  from assms have "walletman(GetName wallet \<mapsto> cj) = walletman"
    by (simp add: fun_upd_idem)
  with assms show ?thesis
    by (simp add: coinjoin_start_def validate_enabled record_call_def Get_clientman_def
        set_clientman_def StartMixing_def)
qed

lemma start_ensure_fails:
  assumes "GetWalletForJSONRPCRequest request = Some wallet" "has_node_context request"
    "\<not> mn_activeman s" "enabled (options s)" "\<not> IsLocked wallet"
    "coinjoin_loader s = Some walletman" "walletman (GetName wallet) = Some cj"
    "\<not> running cj" "\<not> (chainman s \<and> mempool s \<and> connman s)"
  shows "coinjoin_start dad request s =
     (Inl (EnsureError (if \<not> chainman s then Chainman
                        else if \<not> mempool s then MemPool else Connman)),
      s\<lparr>coinjoin_loader := Some (walletman(GetName wallet \<mapsto> cj\<lparr>running := True\<rparr>)),
        calls := calls s @ [Call_IsEnabled, Call_IsLocked, Call_StartMixing True]\<rparr>)"
  using assms
  by (simp add: coinjoin_start_def validate_enabled record_call_def Get_clientman_def
        set_clientman_def StartMixing_def)

lemma start_denominates:
  assumes "GetWalletForJSONRPCRequest request = Some wallet" "has_node_context request"
    "\<not> mn_activeman s" "enabled (options s)" "\<not> IsLocked wallet"
    "coinjoin_loader s = Some walletman" "walletman (GetName wallet) = Some cj"
    "\<not> running cj" "chainman s" "mempool s" "connman s"
    "dad (cj\<lparr>running := True\<rparr>) = (result, cj2)"
  shows "coinjoin_start dad request s =
     (Inr (VSTR (if result then ''Mixing started successfully''
                 else ''Mixing start failed: '' @ GetStatuses cj2 @ '', will retry'')),
      s\<lparr>coinjoin_loader := Some (walletman(GetName wallet \<mapsto> cj2)),
        calls := calls s @ [Call_IsEnabled, Call_IsLocked, Call_StartMixing True,
                            Call_DoAutomaticDenominating result]
                  @ (if result then [] else [Call_GetStatuses])\<rparr>)"
  using assms
  by (simp add: coinjoin_start_def validate_enabled record_call_def Get_clientman_def
        set_clientman_def StartMixing_def)

lemma start_again:
  assumes "GetWalletForJSONRPCRequest request = Some wallet" "has_node_context request"
    "\<not> mn_activeman s" "enabled (options s)" "\<not> IsLocked wallet" "running cj"
    and s1: "s1 = s\<lparr>coinjoin_loader := Some (walletman(GetName wallet \<mapsto> cj)), calls := cs\<rparr>"
  shows "coinjoin_start dad request s1 =
     (Inl (JSONRPCError RPC_INTERNAL_ERROR ''Mixing has been started already.''),
      s1\<lparr>calls := calls s1 @ [Call_IsEnabled, Call_IsLocked, Call_StartMixing False]\<rparr>)"
  using start_running [of request wallet s1 "walletman(GetName wallet \<mapsto> cj)" cj dad] assms
  by simp

lemma start_unlocked_not_lock_error:
  assumes "GetWalletForJSONRPCRequest request = Some wallet" "\<not> IsLocked wallet"
  shows "fst (coinjoin_start dad request s) \<noteq> Inl (JSONRPCError RPC_WALLET_UNLOCK_NEEDED m)"
  using assms
  by (simp add: coinjoin_start_def ValidateCoinJoinArguments_def Get_clientman_def Let_def
      split: prod.splits sum.splits option.splits)

lemma map_of_pushKV: "map_of (pushKV key val obj) = (map_of obj)(key \<mapsto> val)"
  by (induction obj) auto

lemma keys_pushKV_fresh:
  "key \<notin> set (keys_of obj) \<Longrightarrow> pushKV key val obj = obj @ [(key, val)]"
  by (induction obj) (auto simp: keys_of_def)

lemma in_keys_iff: "(key \<in> set (keys_of obj)) = (map_of obj key \<noteq> None)"
  by (simp add: keys_of_def map_of_eq_None_iff)

lemma server_keys:
  "keys_of (server_GetJsonInfo p []) = [''queue_size'', ''denomination'', ''state'', ''entries_count'']"
  by (simp add: server_GetJsonInfo_def pushKVs_def keys_of_def)

lemma client_info_fields:
  "map_of (manager_GetJsonInfo mgr
            (pushKV ''queue_size'' q (options_GetJsonInfo opts []))) ''keys_left'' = None"
  "map_of (manager_GetJsonInfo mgr
            (pushKV ''queue_size'' q (options_GetJsonInfo opts []))) ''warnings'' = None"
  by (simp_all add: manager_GetJsonInfo_def options_GetJsonInfo_def pushKVs_def map_of_pushKV)

lemmas example_defs =
  example_wallet_def example_session_def example_manager_def example_options_def example_pool_def client_node_def
  masternode_node_def wallet_request_def no_wallet_request_def disabled_node_def
  disabled_by_arg_node_def locked_request_def mixing_manager_def started_node_def
  stopped_node_def reset_node_def

lemmas eval_defs =
  coinjoin_start_def coinjoin_stop_def coinjoin_reset_def ValidateCoinJoinArguments_def
  record_call_def Get_clientman_def set_clientman_def GetBoolArg_def
  StartMixing_def StopMixing_def IsMixing_def ResetPool_def GetStatuses_def
  denominate_ok_def denominate_fail_def
  masternode_msg_def disabled_by_arg_msg_def disabled_internal_msg_def unlock_msg_def

lemma example_start:
  "coinjoin_start denominate_ok wallet_request client_node
     = (Inr (VSTR ''Mixing started successfully''), started_node)"
  by (simp add: eval_defs example_defs)

section \<open>The role guard\<close>

text \<open>
  C1. On a node in the masternode role (\<open>mn_activeman\<close> set), with a wallet resolved from
  the request, each of coinjoin start, coinjoin stop and coinjoin reset throws the
  internal error "Client-side mixing is not supported on masternodes" and leaves the
  whole state as it was: no call to the options, to the wallet's lock or to the client
  manager has been made, and no manager has changed.
\<close>

theorem masternode_refused:
  assumes "GetWalletForJSONRPCRequest request = Some wallet"
    and "has_node_context request"
    and "mn_activeman s"
  shows "coinjoin_start dad request s
           = (Inl (JSONRPCError RPC_INTERNAL_ERROR
                    ''Client-side mixing is not supported on masternodes''), s)
       \<and> coinjoin_stop request s
           = (Inl (JSONRPCError RPC_INTERNAL_ERROR
                    ''Client-side mixing is not supported on masternodes''), s)
       \<and> coinjoin_reset request s
           = (Inl (JSONRPCError RPC_INTERNAL_ERROR
                    ''Client-side mixing is not supported on masternodes''), s)"
  using assms
  by (simp add: coinjoin_start_def coinjoin_stop_def coinjoin_reset_def masternode_msg_def)

theorem masternode_refused_witness:
  "GetWalletForJSONRPCRequest wallet_request = Some example_wallet
   \<and> has_node_context wallet_request
   \<and> mn_activeman masternode_node
   \<and> coinjoin_start denominate_ok wallet_request masternode_node
         = (Inl (JSONRPCError RPC_INTERNAL_ERROR
                  ''Client-side mixing is not supported on masternodes''), masternode_node)
   \<and> coinjoin_stop wallet_request masternode_node
         = (Inl (JSONRPCError RPC_INTERNAL_ERROR
                  ''Client-side mixing is not supported on masternodes''), masternode_node)
   \<and> coinjoin_reset wallet_request masternode_node
         = (Inl (JSONRPCError RPC_INTERNAL_ERROR
                  ''Client-side mixing is not supported on masternodes''), masternode_node)"
proof -
  have w: "GetWalletForJSONRPCRequest wallet_request = Some example_wallet"
    by (simp add: wallet_request_def)
  have c: "has_node_context wallet_request"
    by (simp add: wallet_request_def)
  have m: "mn_activeman masternode_node"
    by (simp add: masternode_node_def)
  from masternode_refused [OF w c m, of denominate_ok] w c m show ?thesis
    by simp
qed

section \<open>Starting\<close>

text \<open>
  C2. Let coinjoin start run from \<open>s\<close> to the result \<open>r\<close> and the state \<open>s1\<close>. It fails
  with "Mixing has been started already." exactly when, in this run, \<^verbatim>\<open>StartMixing()\<close>
  has been called and has returned false. \<^verbatim>\<open>StartMixing()\<close> is called exactly when the
  guards let the handler reach the wallet's client manager, and it returns false exactly
  when that manager is already running. When it returns false, no manager has changed
  and \<^verbatim>\<open>DoAutomaticDenominating\<close> is not called. In particular, when the guards pass
  and \<^verbatim>\<open>DoAutomaticDenominating\<close> does not stop a running manager, a second coinjoin
  start right after the first one fails with that reason, calls \<^verbatim>\<open>StartMixing()\<close>
  once more and nothing after it, and leaves every manager as it was.
\<close>

theorem start_already_started:
  assumes run: "coinjoin_start dad request s = (r, s1)"
  shows "((r = Inl (JSONRPCError RPC_INTERNAL_ERROR ''Mixing has been started already.''))
            = (Call_StartMixing False \<in> set (new_calls s s1)))
       \<and> ((Call_StartMixing b \<in> set (new_calls s s1))
            = (map_option (\<lambda>cj. fst (StartMixing cj)) (start_manager request s) = Some b))
       \<and> ((Call_StartMixing False \<in> set (new_calls s s1))
            = (map_option running (start_manager request s) = Some True))
       \<and> (Call_StartMixing False \<in> set (new_calls s s1) \<longrightarrow>
            coinjoin_loader s1 = coinjoin_loader s
            \<and> Call_DoAutomaticDenominating True \<notin> set (new_calls s s1)
            \<and> Call_DoAutomaticDenominating False \<notin> set (new_calls s s1))
       \<and> (start_manager request s \<noteq> None \<and> (\<forall>m. running m \<longrightarrow> running (snd (dad m))) \<longrightarrow>
            coinjoin_start dad request s1
              = (Inl (JSONRPCError RPC_INTERNAL_ERROR ''Mixing has been started already.''),
                 s1\<lparr>calls := calls s1 @ [Call_IsEnabled, Call_IsLocked, Call_StartMixing False]\<rparr>))"
proof (cases "GetWalletForJSONRPCRequest request")
  case None
  with run have "r = Inr VNULL" "s1 = s"
    by (simp_all add: start_no_wallet)
  with None show ?thesis
    by (simp add: new_calls_def start_manager_def)
next
  case (Some wallet)
  show ?thesis
  proof (cases "has_node_context request \<and> \<not> mn_activeman s \<and> enabled (options s)
                \<and> \<not> IsLocked wallet")
    case False
    then consider (noctx) "\<not> has_node_context request"
      | (mn) "has_node_context request" "mn_activeman s"
      | (off) "has_node_context request" "\<not> mn_activeman s" "\<not> enabled (options s)"
      | (locked) "has_node_context request" "\<not> mn_activeman s" "enabled (options s)"
          "IsLocked wallet"
      by blast
    then show ?thesis
    proof cases
      case noctx
      with run Some have "r = Inl (EnsureError AnyNodeContext)" "s1 = s"
        by (simp_all add: start_no_context)
      with Some noctx show ?thesis
        by (simp add: new_calls_def start_manager_def guarded_manager_def)
    next
      case mn
      with run Some have "r = Inl (JSONRPCError RPC_INTERNAL_ERROR masternode_msg)" "s1 = s"
        by (simp_all add: start_masternode)
      with Some mn show ?thesis
        by (simp add: new_calls_def start_manager_def guarded_manager_def msg_distinct)
    next
      case off
      from start_disabled [OF Some off, of dad] run
      have "r = Inl (JSONRPCError RPC_INTERNAL_ERROR
                      (if GetBoolArg (gArgs s) ''-enablecoinjoin'' True
                       then disabled_internal_msg else disabled_by_arg_msg))"
        and "new_calls s s1 = [Call_IsEnabled, Call_GetBoolArg]"
        by (auto simp: new_calls_def)
      with Some off show ?thesis
        by (simp add: start_manager_def guarded_manager_def msg_distinct)
    next
      case locked
      from start_locked [OF Some locked, of dad] run
      have "r = Inl (JSONRPCError RPC_WALLET_UNLOCK_NEEDED unlock_msg)"
        and "new_calls s s1 = [Call_IsEnabled, Call_IsLocked]"
        by (auto simp: new_calls_def)
      with Some locked show ?thesis
        by (simp add: start_manager_def)
    qed
  next
    case True
    then have g: "has_node_context request" "\<not> mn_activeman s" "enabled (options s)"
      "\<not> IsLocked wallet"
      by simp_all
    show ?thesis
    proof (cases s "GetName wallet" rule: Get_clientman_cases)
      case missing
      from start_no_manager [OF Some g missing, of dad] run
      have "r = Inl NonFatalCheckError" "new_calls s s1 = [Call_IsEnabled, Call_IsLocked]"
        by (auto simp: new_calls_def)
      with Some g missing show ?thesis
        by (simp add: start_manager_def guarded_manager_def)
    next
      case (found walletman cj)
      have sm: "start_manager request s = Some cj"
        using Some g Get_clientman_found [OF found]
        by (simp add: start_manager_def guarded_manager_def)
      show ?thesis
      proof (cases "running cj")
        case True
        from start_running [OF Some g found True, of dad] run
        have r: "r = Inl (JSONRPCError RPC_INTERNAL_ERROR ''Mixing has been started already.'')"
          and s1: "s1 = s\<lparr>calls := calls s @ [Call_IsEnabled, Call_IsLocked, Call_StartMixing False]\<rparr>"
          by simp_all
        from s1 have nc: "new_calls s s1 = [Call_IsEnabled, Call_IsLocked, Call_StartMixing False]"
          by (simp add: new_calls_def)
        from s1 found have "coinjoin_loader s1 = Some walletman" "walletman (GetName wallet) = Some cj"
          by simp_all
        from start_running [OF Some _ _ _ g(4) this True, of dad] g s1
        have again: "coinjoin_start dad request s1
              = (Inl (JSONRPCError RPC_INTERNAL_ERROR ''Mixing has been started already.''),
                 s1\<lparr>calls := calls s1 @ [Call_IsEnabled, Call_IsLocked, Call_StartMixing False]\<rparr>)"
          by simp
        from r nc sm True again s1 show ?thesis
          by (simp add: StartMixing_def)
      next
        case False
        show ?thesis
        proof (cases "chainman s \<and> mempool s \<and> connman s")
          case ensured: True
          obtain result cj2 where d: "dad (cj\<lparr>running := True\<rparr>) = (result, cj2)"
            by (cases "dad (cj\<lparr>running := True\<rparr>)")
          from ensured have e: "chainman s" "mempool s" "connman s"
            by simp_all
          from start_denominates [where dad = dad, OF Some g found False e d] run
          have r: "\<exists>v. r = Inr v"
            and s1: "s1 = s\<lparr>coinjoin_loader := Some (walletman(GetName wallet \<mapsto> cj2)),
                calls := calls s @ [Call_IsEnabled, Call_IsLocked, Call_StartMixing True,
                            Call_DoAutomaticDenominating result]
                  @ (if result then [] else [Call_GetStatuses])\<rparr>"
            by auto
          from s1 have nc: "new_calls s s1 = [Call_IsEnabled, Call_IsLocked, Call_StartMixing True,
                            Call_DoAutomaticDenominating result]
                  @ (if result then [] else [Call_GetStatuses])"
            by (simp add: new_calls_def)
          have again: "coinjoin_start dad request s1
              = (Inl (JSONRPCError RPC_INTERNAL_ERROR ''Mixing has been started already.''),
                 s1\<lparr>calls := calls s1 @ [Call_IsEnabled, Call_IsLocked, Call_StartMixing False]\<rparr>)"
            if "\<forall>m. running m \<longrightarrow> running (snd (dad m))"
          proof -
            from that d have "running cj2"
              by (metis manager.select_convs(1) manager.surjective manager.update_convs(1) snd_conv)
            from start_again [OF Some g this s1] show ?thesis .
          qed
          from r nc sm False again show ?thesis
            by (auto simp: StartMixing_def)
        next
          case unsure: False
          from start_ensure_fails [OF Some g found False unsure, of dad] run
          have r: "\<exists>c. r = Inl (EnsureError c)"
            and s1: "s1 = s\<lparr>coinjoin_loader := Some (walletman(GetName wallet \<mapsto> cj\<lparr>running := True\<rparr>)),
                calls := calls s @ [Call_IsEnabled, Call_IsLocked, Call_StartMixing True]\<rparr>"
            by auto
          from s1 have nc: "new_calls s s1 = [Call_IsEnabled, Call_IsLocked, Call_StartMixing True]"
            by (simp add: new_calls_def)
          have "running (cj\<lparr>running := True\<rparr>)"
            by simp
          from start_again [OF Some g this s1]
          have again: "coinjoin_start dad request s1
              = (Inl (JSONRPCError RPC_INTERNAL_ERROR ''Mixing has been started already.''),
                 s1\<lparr>calls := calls s1 @ [Call_IsEnabled, Call_IsLocked, Call_StartMixing False]\<rparr>)" .
          from r nc sm False again show ?thesis
            by (auto simp: StartMixing_def)
        qed
      qed
    qed
  qed
qed

text \<open>
  On the example node the first start succeeds and the second one, right after it, fails.
\<close>

theorem start_already_started_witness:
  "coinjoin_start denominate_ok wallet_request client_node
     = (Inr (VSTR ''Mixing started successfully''), started_node)
   \<and> start_manager wallet_request client_node = Some example_manager
   \<and> coinjoin_start denominate_ok wallet_request started_node
       = (Inl (JSONRPCError RPC_INTERNAL_ERROR ''Mixing has been started already.''),
          started_node\<lparr>calls := calls started_node
                                 @ [Call_IsEnabled, Call_IsLocked, Call_StartMixing False]\<rparr>)
   \<and> Call_StartMixing False
       \<in> set (new_calls started_node
                (started_node\<lparr>calls := calls started_node
                                 @ [Call_IsEnabled, Call_IsLocked, Call_StartMixing False]\<rparr>))
   \<and> Call_DoAutomaticDenominating True
       \<notin> set (new_calls started_node
                (started_node\<lparr>calls := calls started_node
                                 @ [Call_IsEnabled, Call_IsLocked, Call_StartMixing False]\<rparr>))"
proof -
  have sm: "start_manager wallet_request client_node = Some example_manager"
    by (simp add: start_manager_def guarded_manager_def Get_clientman_def example_defs)
  have keeps: "\<forall>m. running m \<longrightarrow> running (snd (denominate_ok m))"
    by (simp add: denominate_ok_def)
  from start_already_started [OF example_start] sm keeps
  have again: "coinjoin_start denominate_ok wallet_request started_node
       = (Inl (JSONRPCError RPC_INTERNAL_ERROR ''Mixing has been started already.''),
          started_node\<lparr>calls := calls started_node
                                 @ [Call_IsEnabled, Call_IsLocked, Call_StartMixing False]\<rparr>)"
    by simp
  note second = start_already_started [OF again]
  from second [THEN conjunct1]
  have failed: "Call_StartMixing False
       \<in> set (new_calls started_node
                (started_node\<lparr>calls := calls started_node
                                 @ [Call_IsEnabled, Call_IsLocked, Call_StartMixing False]\<rparr>))"
    by simp
  with second [THEN conjunct2, THEN conjunct2, THEN conjunct2, THEN conjunct1]
  have "Call_DoAutomaticDenominating True
       \<notin> set (new_calls started_node
                (started_node\<lparr>calls := calls started_node
                                 @ [Call_IsEnabled, Call_IsLocked, Call_StartMixing False]\<rparr>))"
    by simp
  with example_start sm again failed show ?thesis
    by simp
qed

section \<open>Stopping\<close>

text \<open>
  C3. Let coinjoin stop run from \<open>s\<close> to the result \<open>r\<close> and the state \<open>s'\<close>. It fails with
  "No mix session to stop" exactly when the client manager has been asked
  \<^verbatim>\<open>IsMixing()\<close> in this run and has answered false. It returns "Mixing was stopped"
  exactly when the manager has answered true, and then \<^verbatim>\<open>StopMixing()\<close> has been called
  exactly once; in every other run it is not called. The manager is asked exactly when
  the guards let the handler reach it, and what it answers is \<^verbatim>\<open>IsMixing()\<close> of that
  manager. When the manager has answered true, the state returned is the one the handler
  got with \<^verbatim>\<open>StopMixing()\<close> applied to the manager of the request's wallet and the three
  calls recorded, and nothing else changed. In every other run no manager has changed.
\<close>

theorem stop_outcome:
  assumes run: "coinjoin_stop request s = (r, s')"
  shows "((r = Inl (JSONRPCError RPC_INTERNAL_ERROR ''No mix session to stop''))
            = (Call_IsMixing False \<in> set (new_calls s s')))
       \<and> ((r = Inr (VSTR ''Mixing was stopped''))
            = (Call_IsMixing True \<in> set (new_calls s s')))
       \<and> count_list (new_calls s s') Call_StopMixing
            = (if Call_IsMixing True \<in> set (new_calls s s') then 1 else 0)
       \<and> ((Call_IsMixing b \<in> set (new_calls s s'))
            = (map_option IsMixing (guarded_manager request s) = Some b))
       \<and> (Call_IsMixing True \<in> set (new_calls s s') \<longrightarrow>
            (\<exists>wallet walletman cj.
               GetWalletForJSONRPCRequest request = Some wallet
               \<and> coinjoin_loader s = Some walletman
               \<and> walletman (GetName wallet) = Some cj
               \<and> s' = s\<lparr>coinjoin_loader := Some (walletman(GetName wallet \<mapsto> StopMixing cj)),
                        calls := calls s @ [Call_IsEnabled, Call_IsMixing True, Call_StopMixing]\<rparr>))
       \<and> (Call_IsMixing True \<notin> set (new_calls s s') \<longrightarrow>
            coinjoin_loader s' = coinjoin_loader s
            \<and> Call_StopMixing \<notin> set (new_calls s s'))"
proof (cases "GetWalletForJSONRPCRequest request")
  case None
  with run have "r = Inr VNULL" "s' = s"
    by (simp_all add: stop_no_wallet)
  with None show ?thesis
    by (simp add: new_calls_def guarded_manager_def)
next
  case (Some wallet)
  show ?thesis
  proof (cases "has_node_context request \<and> \<not> mn_activeman s \<and> enabled (options s)")
    case False
    then consider (noctx) "\<not> has_node_context request"
      | (mn) "has_node_context request" "mn_activeman s"
      | (off) "has_node_context request" "\<not> mn_activeman s" "\<not> enabled (options s)"
      by blast
    then show ?thesis
    proof cases
      case noctx
      with run Some have "r = Inl (EnsureError AnyNodeContext)" "s' = s"
        by (simp_all add: stop_no_context)
      with Some noctx show ?thesis
        by (simp add: new_calls_def guarded_manager_def)
    next
      case mn
      with run Some have "r = Inl (JSONRPCError RPC_INTERNAL_ERROR masternode_msg)" "s' = s"
        by (simp_all add: stop_masternode)
      with Some mn show ?thesis
        by (simp add: new_calls_def guarded_manager_def msg_distinct)
    next
      case off
      from stop_disabled [OF Some off] run
      have "r = Inl (JSONRPCError RPC_INTERNAL_ERROR
                      (if GetBoolArg (gArgs s) ''-enablecoinjoin'' True
                       then disabled_internal_msg else disabled_by_arg_msg))"
        and "new_calls s s' = [Call_IsEnabled, Call_GetBoolArg]"
        and "coinjoin_loader s' = coinjoin_loader s"
        by (auto simp: new_calls_def)
      with Some off show ?thesis
        by (simp add: guarded_manager_def msg_distinct)
    qed
  next
    case True
    then have g: "has_node_context request" "\<not> mn_activeman s" "enabled (options s)"
      by simp_all
    show ?thesis
    proof (cases s "GetName wallet" rule: Get_clientman_cases)
      case missing
      from stop_no_manager [OF Some g missing] run
      have "r = Inl NonFatalCheckError" "new_calls s s' = [Call_IsEnabled]"
        "coinjoin_loader s' = coinjoin_loader s"
        by (auto simp: new_calls_def)
      with Some g missing show ?thesis
        by (simp add: guarded_manager_def)
    next
      case (found walletman cj)
      show ?thesis
      proof (cases "IsMixing cj")
        case True
        from stop_mixing [OF Some g found True] run
        have r: "r = Inr (VSTR ''Mixing was stopped'')"
          and s': "s' = s\<lparr>coinjoin_loader := Some (walletman(GetName wallet \<mapsto> StopMixing cj)),
                        calls := calls s @ [Call_IsEnabled, Call_IsMixing True, Call_StopMixing]\<rparr>"
          by simp_all
        from s' have nc: "new_calls s s' = [Call_IsEnabled, Call_IsMixing True, Call_StopMixing]"
          by (simp add: new_calls_def)
        from Some found s'
        have post: "\<exists>wallet walletman cj.
               GetWalletForJSONRPCRequest request = Some wallet
               \<and> coinjoin_loader s = Some walletman
               \<and> walletman (GetName wallet) = Some cj
               \<and> s' = s\<lparr>coinjoin_loader := Some (walletman(GetName wallet \<mapsto> StopMixing cj)),
                        calls := calls s @ [Call_IsEnabled, Call_IsMixing True, Call_StopMixing]\<rparr>"
          by blast
        from r nc post Some g Get_clientman_found [OF found] True show ?thesis
          by (simp add: guarded_manager_def)
      next
        case False
        from stop_not_mixing [OF Some g found False] run
        have "r = Inl (JSONRPCError RPC_INTERNAL_ERROR ''No mix session to stop'')"
          "new_calls s s' = [Call_IsEnabled, Call_IsMixing False]"
          "coinjoin_loader s' = coinjoin_loader s"
          by (auto simp: new_calls_def)
        with Some g Get_clientman_found [OF found] False show ?thesis
          by (simp add: guarded_manager_def)
      qed
    qed
  qed
qed

text \<open>
  Stop on the example node, where nothing is running, and on the node after a start.
\<close>

theorem stop_outcome_witness:
  "coinjoin_stop wallet_request client_node
     = (Inl (JSONRPCError RPC_INTERNAL_ERROR ''No mix session to stop''),
        client_node\<lparr>calls := [Call_IsEnabled, Call_IsMixing False]\<rparr>)
   \<and> Call_IsMixing False
       \<in> set (new_calls client_node (client_node\<lparr>calls := [Call_IsEnabled, Call_IsMixing False]\<rparr>))
   \<and> count_list (new_calls client_node
                   (client_node\<lparr>calls := [Call_IsEnabled, Call_IsMixing False]\<rparr>))
        Call_StopMixing = 0
   \<and> coinjoin_stop wallet_request started_node = (Inr (VSTR ''Mixing was stopped''), stopped_node)
   \<and> Call_IsMixing True \<in> set (new_calls started_node stopped_node)
   \<and> count_list (new_calls started_node stopped_node) Call_StopMixing = 1
   \<and> coinjoin_loader started_node = Some [''w'' \<mapsto> mixing_manager]
   \<and> coinjoin_loader stopped_node = Some [''w'' \<mapsto> StopMixing mixing_manager]
   \<and> StopMixing mixing_manager \<noteq> mixing_manager"
proof -
  have a: "coinjoin_stop wallet_request client_node
     = (Inl (JSONRPCError RPC_INTERNAL_ERROR ''No mix session to stop''),
        client_node\<lparr>calls := [Call_IsEnabled, Call_IsMixing False]\<rparr>)"
    by (simp add: eval_defs example_defs)
  have b: "coinjoin_stop wallet_request started_node
             = (Inr (VSTR ''Mixing was stopped''), stopped_node)"
    by (simp add: eval_defs example_defs)
  note idle = stop_outcome [OF a]
  note mixing = stop_outcome [OF b]
  from idle [THEN conjunct1]
  have a1: "Call_IsMixing False
       \<in> set (new_calls client_node (client_node\<lparr>calls := [Call_IsEnabled, Call_IsMixing False]\<rparr>))"
    by simp
  from idle [THEN conjunct2, THEN conjunct1]
  have a2: "Call_IsMixing True
       \<notin> set (new_calls client_node (client_node\<lparr>calls := [Call_IsEnabled, Call_IsMixing False]\<rparr>))"
    by simp
  from idle [THEN conjunct2, THEN conjunct2, THEN conjunct1] a2
  have a3: "count_list (new_calls client_node
                   (client_node\<lparr>calls := [Call_IsEnabled, Call_IsMixing False]\<rparr>))
        Call_StopMixing = 0"
    by simp
  from mixing [THEN conjunct2, THEN conjunct1]
  have b1: "Call_IsMixing True \<in> set (new_calls started_node stopped_node)"
    by simp
  from mixing [THEN conjunct2, THEN conjunct2, THEN conjunct1] b1
  have b2: "count_list (new_calls started_node stopped_node) Call_StopMixing = 1"
    by simp
  have w: "GetWalletForJSONRPCRequest wallet_request = Some example_wallet"
    "GetName example_wallet = ''w''"
    by (simp_all add: wallet_request_def example_wallet_def)
  have l: "coinjoin_loader started_node = Some [''w'' \<mapsto> mixing_manager]"
    by (simp add: started_node_def)
  from mixing [THEN conjunct2, THEN conjunct2, THEN conjunct2, THEN conjunct2, THEN conjunct1] b1
  obtain wallet walletman cj where
    p: "GetWalletForJSONRPCRequest wallet_request = Some wallet"
      "coinjoin_loader started_node = Some walletman"
      "walletman (GetName wallet) = Some cj"
      "stopped_node = started_node
         \<lparr>coinjoin_loader := Some (walletman(GetName wallet \<mapsto> StopMixing cj)),
          calls := calls started_node @ [Call_IsEnabled, Call_IsMixing True, Call_StopMixing]\<rparr>"
    by blast
  from p(1) w have pw: "wallet = example_wallet"
    by simp
  from p(2) l have pm: "walletman = [''w'' \<mapsto> mixing_manager]"
    by simp
  from p(4) have "coinjoin_loader stopped_node
      = coinjoin_loader (started_node
         \<lparr>coinjoin_loader := Some (walletman(GetName wallet \<mapsto> StopMixing cj)),
          calls := calls started_node @ [Call_IsEnabled, Call_IsMixing True, Call_StopMixing]\<rparr>)"
    by (rule arg_cong)
  with pw pm p(3) w have b3: "coinjoin_loader stopped_node = Some [''w'' \<mapsto> StopMixing mixing_manager]"
    by simp
  have d: "StopMixing mixing_manager \<noteq> mixing_manager"
    by (simp add: StopMixing_def mixing_manager_def example_manager_def)
  from a a1 a3 b b1 b2 l b3 d show ?thesis
    by blast
qed

section \<open>Resetting\<close>

text \<open>
  C4, as amended. On a node in the client role with mixing enabled, with a wallet
  resolved from the request whose client manager exists, coinjoin reset returns "Mixing
  was reset" and no error. A second reset right after it returns the same and leaves
  every manager as the first reset left it; after the first reset the wallet's manager
  is \<^verbatim>\<open>ResetPool\<close> of what it was, and it holds no reserved input. Each reset asks
  whether mixing is enabled and calls \<^verbatim>\<open>ResetPool()\<close> once.
\<close>

theorem reset_succeeds_twice:
  assumes "GetWalletForJSONRPCRequest request = Some wallet"
    and "has_node_context request"
    and "\<not> mn_activeman s"
    and "enabled (options s)"
    and "coinjoin_loader s = Some walletman"
    and "walletman (GetName wallet) = Some cj"
    and first: "coinjoin_reset request s = (r1, s1)"
    and second: "coinjoin_reset request s1 = (r2, s2)"
  shows "r1 = Inr (VSTR ''Mixing was reset'')
       \<and> r2 = Inr (VSTR ''Mixing was reset'')
       \<and> coinjoin_loader s2 = coinjoin_loader s1
       \<and> Get_clientman s1 (GetName wallet) = Inr (ResetPool cj)
       \<and> reserved_inputs (ResetPool cj) = []
       \<and> new_calls s s1 = [Call_IsEnabled, Call_ResetPool]
       \<and> new_calls s1 s2 = [Call_IsEnabled, Call_ResetPool]"
proof -
  define walletman1 where "walletman1 = walletman(GetName wallet \<mapsto> ResetPool cj)"
  from reset_done [OF assms(1-6)] first
  have r1: "r1 = Inr (VSTR ''Mixing was reset'')"
    and s1: "s1 = s\<lparr>coinjoin_loader := Some walletman1,
              calls := calls s @ [Call_IsEnabled, Call_ResetPool]\<rparr>"
    by (simp_all add: walletman1_def)
  from s1 assms(3,4)
  have g1: "\<not> mn_activeman s1" "enabled (options s1)" "coinjoin_loader s1 = Some walletman1"
    by simp_all
  have w1: "walletman1 (GetName wallet) = Some (ResetPool cj)"
    by (simp add: walletman1_def)
  from reset_done [OF assms(1,2) g1 w1] second
  have r2: "r2 = Inr (VSTR ''Mixing was reset'')"
    and s2: "s2 = s1\<lparr>coinjoin_loader :=
                       Some (walletman1(GetName wallet \<mapsto> ResetPool (ResetPool cj))),
              calls := calls s1 @ [Call_IsEnabled, Call_ResetPool]\<rparr>"
    by simp_all
  from w1 have "walletman1(GetName wallet \<mapsto> ResetPool (ResetPool cj)) = walletman1"
    by (simp add: ResetPool_idem fun_upd_idem)
  with s2 g1(3) have "coinjoin_loader s2 = coinjoin_loader s1"
    by simp
  moreover from s1 have "new_calls s s1 = [Call_IsEnabled, Call_ResetPool]"
    by (simp add: new_calls_def)
  moreover from s2 have "new_calls s1 s2 = [Call_IsEnabled, Call_ResetPool]"
    by (simp add: new_calls_def)
  moreover have "reserved_inputs (ResetPool cj) = []"
    by (simp add: reserved_inputs_def ResetPool_def)
  moreover from g1 w1 have "Get_clientman s1 (GetName wallet) = Inr (ResetPool cj)"
    by (simp add: Get_clientman_def)
  ultimately show ?thesis
    using r1 r2 by simp
qed

text \<open>Two resets in a row on the node that a start has left with a session.\<close>

theorem reset_succeeds_twice_witness:
  "GetWalletForJSONRPCRequest wallet_request = Some example_wallet
   \<and> has_node_context wallet_request
   \<and> \<not> mn_activeman started_node
   \<and> enabled (options started_node)
   \<and> reserved_inputs mixing_manager = [''c3-1'']
   \<and> coinjoin_reset wallet_request started_node = (Inr (VSTR ''Mixing was reset''), reset_node)
   \<and> fst (coinjoin_reset wallet_request reset_node) = Inr (VSTR ''Mixing was reset'')
   \<and> coinjoin_loader (snd (coinjoin_reset wallet_request reset_node)) = coinjoin_loader reset_node
   \<and> Get_clientman reset_node ''w'' = Inr (ResetPool mixing_manager)
   \<and> reserved_inputs (ResetPool mixing_manager) = []"
proof -
  have g: "GetWalletForJSONRPCRequest wallet_request = Some example_wallet"
    "has_node_context wallet_request" "\<not> mn_activeman started_node"
    "enabled (options started_node)"
    "coinjoin_loader started_node = Some [''w'' \<mapsto> mixing_manager]"
    by (simp_all add: example_defs)
  have m: "[''w'' \<mapsto> mixing_manager] (GetName example_wallet) = Some mixing_manager"
    by (simp add: example_defs)
  have first: "coinjoin_reset wallet_request started_node
                 = (Inr (VSTR ''Mixing was reset''), reset_node)"
    by (simp add: eval_defs example_defs)
  have second: "coinjoin_reset wallet_request reset_node
                  = (fst (coinjoin_reset wallet_request reset_node),
                     snd (coinjoin_reset wallet_request reset_node))"
    by simp
  have n: "GetName example_wallet = ''w''"
    by (simp add: example_defs)
  have r: "reserved_inputs mixing_manager = [''c3-1'']"
    by (simp add: reserved_inputs_def example_defs)
  from reset_succeeds_twice [OF g m first second] g first n r show ?thesis
    by simp
qed

text \<open>
  Without the two conditions on the node the property fails: with a wallet resolved,
  reset on a masternode throws the masternode error, and reset on a client node with
  mixing disabled throws the configuration error.
\<close>

theorem reset_always_succeeds_counterexample:
  "GetWalletForJSONRPCRequest wallet_request = Some example_wallet
   \<and> coinjoin_reset wallet_request masternode_node
       = (Inl (JSONRPCError RPC_INTERNAL_ERROR
                ''Client-side mixing is not supported on masternodes''), masternode_node)
   \<and> fst (coinjoin_reset wallet_request masternode_node) \<noteq> Inr (VSTR ''Mixing was reset'')
   \<and> fst (coinjoin_reset wallet_request disabled_node)
       = Inl (JSONRPCError RPC_INTERNAL_ERROR ''Mixing is disabled due to an internal error'')"
  by (simp add: eval_defs example_defs)

section \<open>The configuration guard\<close>

text \<open>
  C5, as amended. On a node in the client role with mixing disabled, with a wallet
  resolved from the request, coinjoin start, coinjoin stop and coinjoin reset all do the
  same: they throw an internal error and return the state with nothing changed but the
  record of the two calls made (\<^verbatim>\<open>IsEnabled\<close>, then \<^verbatim>\<open>GetBoolArg\<close>). The reason tells
  the two causes apart: it is the "-enablecoinjoin=0" message when the argument is set
  to false, and the "internal error" message otherwise, and the two messages differ.
\<close>

theorem disabled_refused:
  assumes "GetWalletForJSONRPCRequest request = Some wallet"
    and "has_node_context request"
    and "\<not> mn_activeman s"
    and "\<not> enabled (options s)"
  shows "coinjoin_start dad request s = coinjoin_stop request s
       \<and> coinjoin_stop request s = coinjoin_reset request s
       \<and> coinjoin_reset request s
           = (Inl (JSONRPCError RPC_INTERNAL_ERROR
                    (if gArgs s ''-enablecoinjoin'' = Some False
                     then ''Mixing is disabled via -enablecoinjoin=0 command line option, remove it to enable mixing again''
                     else ''Mixing is disabled due to an internal error'')),
              s\<lparr>calls := calls s @ [Call_IsEnabled, Call_GetBoolArg]\<rparr>)
       \<and> ''Mixing is disabled via -enablecoinjoin=0 command line option, remove it to enable mixing again''
           \<noteq> ''Mixing is disabled due to an internal error''"
proof -
  have "(if GetBoolArg (gArgs s) ''-enablecoinjoin'' True
         then disabled_internal_msg else disabled_by_arg_msg)
        = (if gArgs s ''-enablecoinjoin'' = Some False
           then ''Mixing is disabled via -enablecoinjoin=0 command line option, remove it to enable mixing again''
           else ''Mixing is disabled due to an internal error'')"
    by (simp add: GetBoolArg_def disabled_internal_msg_def disabled_by_arg_msg_def
        split: option.splits)
  with start_disabled [OF assms, of dad] stop_disabled [OF assms] reset_disabled [OF assms]
  show ?thesis
    by simp
qed

text \<open>A node with mixing disabled by an internal error, and one with it disabled by the argument.\<close>

theorem disabled_refused_witness:
  "GetWalletForJSONRPCRequest wallet_request = Some example_wallet
   \<and> has_node_context wallet_request
   \<and> \<not> mn_activeman disabled_node \<and> \<not> enabled (options disabled_node)
   \<and> \<not> mn_activeman disabled_by_arg_node \<and> \<not> enabled (options disabled_by_arg_node)
   \<and> coinjoin_start denominate_ok wallet_request disabled_node
       = (Inl (JSONRPCError RPC_INTERNAL_ERROR ''Mixing is disabled due to an internal error''),
          disabled_node\<lparr>calls := [Call_IsEnabled, Call_GetBoolArg]\<rparr>)
   \<and> coinjoin_stop wallet_request disabled_by_arg_node
       = (Inl (JSONRPCError RPC_INTERNAL_ERROR
                ''Mixing is disabled via -enablecoinjoin=0 command line option, remove it to enable mixing again''),
          disabled_by_arg_node\<lparr>calls := [Call_IsEnabled, Call_GetBoolArg]\<rparr>)"
proof -
  have g: "GetWalletForJSONRPCRequest wallet_request = Some example_wallet"
    "has_node_context wallet_request"
    by (simp_all add: example_defs)
  have d: "\<not> mn_activeman disabled_node" "\<not> enabled (options disabled_node)"
    by (simp_all add: example_defs)
  have a: "\<not> mn_activeman disabled_by_arg_node" "\<not> enabled (options disabled_by_arg_node)"
    by (simp_all add: example_defs)
  have v: "gArgs disabled_node ''-enablecoinjoin'' = None"
    "gArgs disabled_by_arg_node ''-enablecoinjoin'' = Some False"
    "calls disabled_node = []" "calls disabled_by_arg_node = []"
    by (simp_all add: example_defs)
  from disabled_refused [OF g d, of denominate_ok] disabled_refused [OF g a, of denominate_ok]
    g d a v
  show ?thesis
    by simp
qed

text \<open>
  Without a wallet the property fails: on a client node with mixing disabled the three
  handlers return the null value and refuse nothing.
\<close>

theorem disabled_refused_counterexample:
  "\<not> mn_activeman disabled_node
   \<and> \<not> enabled (options disabled_node)
   \<and> has_node_context no_wallet_request
   \<and> coinjoin_start denominate_ok no_wallet_request disabled_node
       = (Inr NullUniValue, disabled_node)
   \<and> coinjoin_stop no_wallet_request disabled_node = (Inr NullUniValue, disabled_node)
   \<and> coinjoin_reset no_wallet_request disabled_node = (Inr NullUniValue, disabled_node)"
  by (simp add: eval_defs example_defs)

section \<open>The wallet lock\<close>

text \<open>
  C6. On a node in the client role with mixing enabled, coinjoin start with a locked
  wallet throws the unlock-needed error "Error: Please unlock wallet for mixing with
  walletpassphrase first.". The state it returns differs from the one it got only by the
  record of the two calls made (\<^verbatim>\<open>IsEnabled\<close>, then \<^verbatim>\<open>IsLocked\<close>): \<^verbatim>\<open>StartMixing()\<close>
  has not been called and no manager has changed. A retry from that state with the wallet
  unlocked is not refused for the lock.
\<close>

theorem locked_wallet_refused:
  assumes "GetWalletForJSONRPCRequest request = Some wallet"
    and "has_node_context request"
    and "\<not> mn_activeman s"
    and "enabled (options s)"
    and "IsLocked wallet"
  shows "coinjoin_start dad request s
           = (Inl (JSONRPCError RPC_WALLET_UNLOCK_NEEDED
                    ''Error: Please unlock wallet for mixing with walletpassphrase first.''),
              s\<lparr>calls := calls s @ [Call_IsEnabled, Call_IsLocked]\<rparr>)
       \<and> fst (coinjoin_start dad
                (request\<lparr>GetWalletForJSONRPCRequest := Some (wallet\<lparr>IsLocked := False\<rparr>)\<rparr>)
                (snd (coinjoin_start dad request s)))
           \<noteq> Inl (JSONRPCError RPC_WALLET_UNLOCK_NEEDED
                    ''Error: Please unlock wallet for mixing with walletpassphrase first.'')"
proof -
  have "coinjoin_start dad request s
           = (Inl (JSONRPCError RPC_WALLET_UNLOCK_NEEDED
                    ''Error: Please unlock wallet for mixing with walletpassphrase first.''),
              s\<lparr>calls := calls s @ [Call_IsEnabled, Call_IsLocked]\<rparr>)"
    using start_locked [OF assms, of dad] by (simp add: unlock_msg_def)
  moreover have "fst (coinjoin_start dad
                (request\<lparr>GetWalletForJSONRPCRequest := Some (wallet\<lparr>IsLocked := False\<rparr>)\<rparr>) s')
           \<noteq> Inl (JSONRPCError RPC_WALLET_UNLOCK_NEEDED m)" for s' m
    by (rule start_unlocked_not_lock_error [where wallet = "wallet\<lparr>IsLocked := False\<rparr>"]) simp_all
  ultimately show ?thesis
    by simp
qed

text \<open>Start with the example wallet locked.\<close>

theorem locked_wallet_refused_witness:
  "GetWalletForJSONRPCRequest locked_request = Some (example_wallet\<lparr>IsLocked := True\<rparr>)
   \<and> has_node_context locked_request
   \<and> \<not> mn_activeman client_node
   \<and> enabled (options client_node)
   \<and> IsLocked (example_wallet\<lparr>IsLocked := True\<rparr>)
   \<and> coinjoin_start denominate_ok locked_request client_node
       = (Inl (JSONRPCError RPC_WALLET_UNLOCK_NEEDED
                ''Error: Please unlock wallet for mixing with walletpassphrase first.''),
          client_node\<lparr>calls := [Call_IsEnabled, Call_IsLocked]\<rparr>)
   \<and> fst (coinjoin_start denominate_ok
            (locked_request\<lparr>GetWalletForJSONRPCRequest :=
                              Some (example_wallet\<lparr>IsLocked := True, IsLocked := False\<rparr>)\<rparr>)
            (snd (coinjoin_start denominate_ok locked_request client_node)))
       \<noteq> Inl (JSONRPCError RPC_WALLET_UNLOCK_NEEDED
                ''Error: Please unlock wallet for mixing with walletpassphrase first.'')"
proof -
  have g: "GetWalletForJSONRPCRequest locked_request = Some (example_wallet\<lparr>IsLocked := True\<rparr>)"
    "has_node_context locked_request" "\<not> mn_activeman client_node"
    "enabled (options client_node)" "IsLocked (example_wallet\<lparr>IsLocked := True\<rparr>)"
    by (simp_all add: example_defs)
  have c: "calls client_node = []"
    by (simp add: example_defs)
  note refused = locked_wallet_refused [OF g, of denominate_ok]
  from refused [THEN conjunct1] c
  have a: "coinjoin_start denominate_ok locked_request client_node
       = (Inl (JSONRPCError RPC_WALLET_UNLOCK_NEEDED
                ''Error: Please unlock wallet for mixing with walletpassphrase first.''),
          client_node\<lparr>calls := [Call_IsEnabled, Call_IsLocked]\<rparr>)"
    by simp
  from refused [THEN conjunct2]
  have b: "fst (coinjoin_start denominate_ok
            (locked_request\<lparr>GetWalletForJSONRPCRequest :=
                              Some (example_wallet\<lparr>IsLocked := True, IsLocked := False\<rparr>)\<rparr>)
            (snd (coinjoin_start denominate_ok locked_request client_node)))
       \<noteq> Inl (JSONRPCError RPC_WALLET_UNLOCK_NEEDED
                ''Error: Please unlock wallet for mixing with walletpassphrase first.'')" .
  from a b g show ?thesis
    by blast
qed

section \<open>The report of a masternode\<close>

text \<open>
  C7. On a node in the masternode role, \<^verbatim>\<open>getcoinjoininfo\<close> returns the object that the
  server's \<^verbatim>\<open>GetJsonInfo\<close> fills, starting from the empty object, and leaves the state as
  it was. The keys of that object are \<open>queue_size\<close>, \<open>denomination\<close>, \<open>state\<close> and
  \<open>entries_count\<close>; none of the client fields \<open>enabled\<close>, \<open>multisession\<close>,
  \<open>max_sessions\<close>, \<open>max_rounds\<close>, \<open>keys_left\<close>, \<open>sessions\<close> and \<open>warnings\<close> is
  among them.
\<close>

theorem masternode_info:
  assumes "has_node_context request"
    and "mn_activeman s"
  shows "getcoinjoininfo threshold request s = (Inr (VOBJ (server_GetJsonInfo (server s) [])), s)
       \<and> keys_of (server_GetJsonInfo (server s) [])
           = [''queue_size'', ''denomination'', ''state'', ''entries_count'']
       \<and> set (keys_of (server_GetJsonInfo (server s) []))
           \<inter> {''enabled'', ''multisession'', ''max_sessions'', ''max_rounds'', ''keys_left'',
               ''sessions'', ''warnings''} = {}"
proof -
  from assms
  have "getcoinjoininfo threshold request s = (Inr (VOBJ (server_GetJsonInfo (server s) [])), s)"
    by (simp add: getcoinjoininfo_def)
  moreover have "set [''queue_size'', ''denomination'', ''state'', ''entries_count'']
           \<inter> {''enabled'', ''multisession'', ''max_sessions'', ''max_rounds'', ''keys_left'',
               ''sessions'', ''warnings''} = {}"
    by simp
  ultimately show ?thesis
    by (simp only: server_keys)
qed

text \<open>The report of the example masternode.\<close>

theorem masternode_info_witness:
  "has_node_context wallet_request
   \<and> mn_activeman masternode_node
   \<and> getcoinjoininfo 100 wallet_request masternode_node
       = (Inr (VOBJ (server_GetJsonInfo (server masternode_node) [])), masternode_node)
   \<and> keys_of (server_GetJsonInfo (server masternode_node) [])
       = [''queue_size'', ''denomination'', ''state'', ''entries_count'']"
proof -
  have g: "has_node_context wallet_request" "mn_activeman masternode_node"
    by (simp_all add: example_defs)
  from masternode_info [OF g, of 100] g show ?thesis
    by simp
qed

section \<open>The status of a start\<close>

text \<open>
  C8. When coinjoin start passes its guards (a wallet that is not locked, the client
  role, mixing enabled, the wallet's client manager, and the chain state manager, memory
  pool and connection manager it hands on), \<^verbatim>\<open>StartMixing()\<close> succeeds and the call of
  \<^verbatim>\<open>DoAutomaticDenominating\<close> that follows returns \<open>result\<close>, then the handler returns a
  string and throws nothing: "Mixing started successfully" if \<open>result\<close> is true, and
  "Mixing start failed: ", the manager's status string and ", will retry" if it is
  false. The status string is read only in the second case.
\<close>

theorem start_status_string:
  assumes "GetWalletForJSONRPCRequest request = Some wallet"
    and "has_node_context request"
    and "\<not> mn_activeman s"
    and "enabled (options s)"
    and "\<not> IsLocked wallet"
    and "coinjoin_loader s = Some walletman"
    and "walletman (GetName wallet) = Some cj"
    and started: "StartMixing cj = (True, cj1)"
    and "chainman s" and "mempool s" and "connman s"
    and denominated: "dad cj1 = (result, cj2)"
  shows "fst (coinjoin_start dad request s)
           = Inr (VSTR (if result then ''Mixing started successfully''
                        else ''Mixing start failed: '' @ GetStatuses cj2 @ '', will retry''))
       \<and> new_calls s (snd (coinjoin_start dad request s))
           = [Call_IsEnabled, Call_IsLocked, Call_StartMixing True,
              Call_DoAutomaticDenominating result]
             @ (if result then [] else [Call_GetStatuses])"
proof -
  from started have idle: "\<not> running cj" and cj1: "cj1 = cj\<lparr>running := True\<rparr>"
    by (auto simp: StartMixing_def split: if_splits)
  from denominated cj1 have d: "dad (cj\<lparr>running := True\<rparr>) = (result, cj2)"
    by simp
  from start_denominates [where dad = dad, OF assms(1-7) idle assms(9-11) d]
  show ?thesis
    by (simp add: new_calls_def)
qed

text \<open>A start that denominates, and one that has to retry.\<close>

theorem start_status_string_witness:
  "GetWalletForJSONRPCRequest wallet_request = Some example_wallet
   \<and> has_node_context wallet_request
   \<and> \<not> mn_activeman client_node
   \<and> enabled (options client_node)
   \<and> \<not> IsLocked example_wallet
   \<and> StartMixing example_manager = (True, example_manager\<lparr>running := True\<rparr>)
   \<and> chainman client_node \<and> mempool client_node \<and> connman client_node
   \<and> fst (coinjoin_start denominate_ok wallet_request client_node)
       = Inr (VSTR ''Mixing started successfully'')
   \<and> fst (coinjoin_start denominate_fail wallet_request client_node)
       = Inr (VSTR ''Mixing start failed: no queues, will retry'')"
proof -
  have g: "GetWalletForJSONRPCRequest wallet_request = Some example_wallet"
    "has_node_context wallet_request" "\<not> mn_activeman client_node"
    "enabled (options client_node)" "\<not> IsLocked example_wallet"
    "coinjoin_loader client_node = Some [''w'' \<mapsto> example_manager]"
    by (simp_all add: example_defs)
  have m: "[''w'' \<mapsto> example_manager] (GetName example_wallet) = Some example_manager"
    by (simp add: example_defs)
  have st: "StartMixing example_manager = (True, example_manager\<lparr>running := True\<rparr>)"
    by (simp add: StartMixing_def example_defs)
  have e: "chainman client_node" "mempool client_node" "connman client_node"
    by (simp_all add: example_defs)
  have ok: "denominate_ok (example_manager\<lparr>running := True\<rparr>) = (True, mixing_manager)"
    by (simp add: denominate_ok_def mixing_manager_def)
  have fail: "denominate_fail (example_manager\<lparr>running := True\<rparr>)
              = (False, example_manager\<lparr>running := True, status := ''no queues''\<rparr>)"
    by (simp add: denominate_fail_def)
  have s: "GetStatuses (example_manager\<lparr>running := True, status := ''no queues''\<rparr>) = ''no queues''"
    by (simp add: GetStatuses_def)
  from start_status_string [where dad = denominate_ok, OF g m st e ok]
    start_status_string [where dad = denominate_fail, OF g m st e fail]
    g st e s
  show ?thesis
    by simp
qed

section \<open>The keypool warning\<close>

text \<open>
  C9. On a node in the client role, with a wallet resolved from the request whose client
  manager exists, \<^verbatim>\<open>getcoinjoininfo\<close> returns an object and leaves the state as it was.
  The object has the key \<open>keys_left\<close> exactly when the wallet is a legacy wallet, and its
  value is then the wallet's \<^verbatim>\<open>nKeysLeftSinceAutoBackup\<close>. It always has the key
  \<open>warnings\<close>, whose value is "WARNING: keypool is almost depleted!" when the wallet is
  a legacy wallet and the counter is below the threshold, and the empty string otherwise.
\<close>

theorem client_info_keypool:
  assumes "has_node_context request"
    and "\<not> mn_activeman s"
    and "GetWalletForJSONRPCRequest request = Some wallet"
    and "coinjoin_loader s = Some walletman"
    and "walletman (GetName wallet) = Some mgr"
  shows "\<exists>obj. getcoinjoininfo threshold request s = (Inr (VOBJ obj), s)
           \<and> (''keys_left'' \<in> set (keys_of obj)) = IsLegacy wallet
           \<and> map_of obj ''keys_left''
               = (if IsLegacy wallet then Some (VNUM (nKeysLeftSinceAutoBackup wallet)) else None)
           \<and> ''warnings'' \<in> set (keys_of obj)
           \<and> map_of obj ''warnings''
               = Some (VSTR (if IsLegacy wallet \<and> nKeysLeftSinceAutoBackup wallet < threshold
                             then ''WARNING: keypool is almost depleted!'' else ''''))"
proof -
  define obj3 where
    "obj3 = manager_GetJsonInfo mgr
              (pushKV ''queue_size'' (VNUM (queueman_size s)) (options_GetJsonInfo (options s) []))"
  define obj4 where
    "obj4 = (if IsLegacy wallet
             then pushKV ''keys_left'' (VNUM (nKeysLeftSinceAutoBackup wallet)) obj3 else obj3)"
  define warning_msg where
    "warning_msg = (if IsLegacy wallet \<and> nKeysLeftSinceAutoBackup wallet < threshold
                    then ''WARNING: keypool is almost depleted!'' else '''')"
  define obj where "obj = pushKV ''warnings'' (VSTR warning_msg) obj4"
  from assms have run: "getcoinjoininfo threshold request s = (Inr (VOBJ obj), s)"
    by (simp add: getcoinjoininfo_def obj_def obj4_def obj3_def warning_msg_def)
  have none: "map_of obj3 ''keys_left'' = None" "map_of obj3 ''warnings'' = None"
    unfolding obj3_def by (rule client_info_fields)+
  have k: "map_of obj ''keys_left''
             = (if IsLegacy wallet then Some (VNUM (nKeysLeftSinceAutoBackup wallet)) else None)"
    by (simp add: obj_def obj4_def map_of_pushKV none)
  have w: "map_of obj ''warnings'' = Some (VSTR warning_msg)"
    by (simp add: obj_def map_of_pushKV)
  from run k w show ?thesis
    by (auto simp: in_keys_iff warning_msg_def)
qed

text \<open>The report for the example wallet, a legacy wallet with five keys left.\<close>

theorem client_info_keypool_witness:
  "has_node_context wallet_request
   \<and> \<not> mn_activeman client_node
   \<and> GetWalletForJSONRPCRequest wallet_request = Some example_wallet
   \<and> IsLegacy example_wallet
   \<and> nKeysLeftSinceAutoBackup example_wallet = 5
   \<and> (\<exists>obj. getcoinjoininfo 100 wallet_request client_node = (Inr (VOBJ obj), client_node)
         \<and> map_of obj ''keys_left'' = Some (VNUM 5)
         \<and> map_of obj ''warnings'' = Some (VSTR ''WARNING: keypool is almost depleted!''))"
proof -
  have g: "has_node_context wallet_request" "\<not> mn_activeman client_node"
    "GetWalletForJSONRPCRequest wallet_request = Some example_wallet"
    "coinjoin_loader client_node = Some [''w'' \<mapsto> example_manager]"
    by (simp_all add: example_defs)
  have m: "[''w'' \<mapsto> example_manager] (GetName example_wallet) = Some example_manager"
    by (simp add: example_defs)
  have w: "IsLegacy example_wallet" "nKeysLeftSinceAutoBackup example_wallet = 5"
    by (simp_all add: example_defs)
  from client_info_keypool [OF g m, of 100] w
  have "\<exists>obj. getcoinjoininfo 100 wallet_request client_node = (Inr (VOBJ obj), client_node)
         \<and> map_of obj ''keys_left'' = Some (VNUM 5)
         \<and> map_of obj ''warnings'' = Some (VSTR ''WARNING: keypool is almost depleted!'')"
    by auto
  with g w show ?thesis
    by simp
qed

section \<open>No wallet\<close>

text \<open>
  C10. When no wallet is resolved from the request, each of coinjoin start, coinjoin stop
  and coinjoin reset returns the null value and raises nothing. The state is returned as
  it was, whatever the node is: no call has been recorded, so neither the masternode
  role nor the enabled flag has been looked at, and no manager has changed.
\<close>

theorem no_wallet_returns_null:
  assumes "GetWalletForJSONRPCRequest request = None"
  shows "coinjoin_start dad request s = (Inr NullUniValue, s)
       \<and> coinjoin_stop request s = (Inr NullUniValue, s)
       \<and> coinjoin_reset request s = (Inr NullUniValue, s)"
  using assms
  by (simp add: coinjoin_start_def coinjoin_stop_def coinjoin_reset_def)

theorem no_wallet_returns_null_witness:
  "GetWalletForJSONRPCRequest no_wallet_request = None
   \<and> coinjoin_start denominate_fail no_wallet_request masternode_node
         = (Inr NullUniValue, masternode_node)
   \<and> coinjoin_stop no_wallet_request masternode_node = (Inr NullUniValue, masternode_node)
   \<and> coinjoin_reset no_wallet_request masternode_node = (Inr NullUniValue, masternode_node)"
proof -
  have w: "GetWalletForJSONRPCRequest no_wallet_request = None"
    by (simp add: no_wallet_request_def)
  from no_wallet_returns_null [OF w, of denominate_fail masternode_node] w show ?thesis
    by simp
qed

end
